theory Spec2Isabelle
  imports Main "HOL-Library.Word"
begin

unbundle bit_operations_syntax

section \<open>Key provisioning selectors of packager/app/packager\_util.cc\<close>

text \<open>
  The three selectors \<open>CreateSigner\<close>, \<open>CreateEncryptionKeySource\<close> and
  \<open>CreateDecryptionKeySource\<close> read the gflags globals and call collaborator classes
  (signers, key sources, file reading, hex decoding) that live in other files.
  The globals become a record that is passed in; what the collaborators answer becomes a
  second record, the \<open>world\<close>; every collaborator call with an outside effect
  and every \<open>LOG(ERROR)\<close> is appended to a list of events, returned beside the
  result. A null \<open>unique_ptr\<close> is \<open>None\<close>.
\<close>

subsection \<open>Configuration: the FLAGS globals read by the selectors\<close>

record flags =
  FLAGS_signer :: string
  FLAGS_aes_signing_key :: string
  FLAGS_aes_signing_iv :: string
  FLAGS_rsa_signing_key_path :: string
  FLAGS_enable_widevine_encryption :: bool
  FLAGS_enable_widevine_decryption :: bool
  FLAGS_key_server_url :: string
  FLAGS_include_common_pssh :: bool
  FLAGS_content_id :: string
  FLAGS_policy :: string
  FLAGS_enable_fixed_key_encryption :: bool
  FLAGS_enable_fixed_key_decryption :: bool
  FLAGS_key_id :: string
  FLAGS_key :: string
  FLAGS_pssh :: string
  FLAGS_iv :: string
  FLAGS_enable_playready_encryption :: bool
  FLAGS_playready_key_id :: string
  FLAGS_playready_key :: string
  FLAGS_playready_server_url :: string
  FLAGS_program_identifier :: string
  FLAGS_client_cert_file :: string
  FLAGS_client_cert_private_key_file :: string
  FLAGS_client_cert_private_key_password :: string
  FLAGS_ca_file :: string

subsection \<open>Objects the selectors build\<close>

text \<open>
  The collaborator classes are opaque to this file, so an object is represented by the
  call that built it and the setters applied to it before it is returned.
\<close>

datatype RequestSigner =
    AesRequestSigner string string string  \<comment> \<open>signer name, AES key, IV\<close>
  | RsaRequestSigner string string         \<comment> \<open>signer name, private key read from the file\<close>

datatype KeySource =
    WidevineKeySource string bool "RequestSigner option"
      \<comment> \<open>server URL, include-common-pssh toggle, signer given to \<open>set_signer\<close> if any\<close>
  | FixedKeySource string string string string
      \<comment> \<open>the four hex strings: key id, key, pssh, iv\<close>
  | PlayReadyKeySource_KeyAndKeyId string string
      \<comment> \<open>\<open>PlayReadyKeySource::CreateFromKeyAndKeyId\<close>: key id, key\<close>
  | PlayReadyKeySource string "(string \<times> string \<times> string) option" "string option"
      \<comment> \<open>server URL; client certificate, private key file and password when the
         four-argument constructor is used; CA file given to \<open>SetCaFile\<close> if any\<close>

datatype Status = Status_OK | Status_Error nat string

fun ok :: "Status \<Rightarrow> bool" where
  "ok Status_OK = True"
| "ok (Status_Error code msg) = False"

subsection \<open>Events: log lines and collaborator calls\<close>

datatype log_message =
    Cannot_create_AES_signer string string
      \<comment> \<open>"Cannot create an AES signer object from 'key':'iv'."\<close>
  | Failed_to_read_from string
      \<comment> \<open>"Failed to read from 'path'."\<close>
  | Cannot_create_RSA_signer string
      \<comment> \<open>"Cannot create a RSA signer object from 'path'."\<close>
  | Invalid_content_id
      \<comment> \<open>"Invalid content\_id hex string specified."\<close>
  | Widevine_failed_to_fetch_keys Status
      \<comment> \<open>"Widevine encryption key source failed to fetch keys: " and the status\<close>
  | Error_creating_PlayReady_key_source
      \<comment> \<open>"Error creating PlayReady key source."\<close>

datatype event =
    LOG_ERROR log_message
  | AesRequestSigner_CreateSigner string string string
  | File_ReadFileToString string
  | RsaRequestSigner_CreateSigner string string
  | WidevineKeySource_FetchKeys "8 word list" string
  | FixedKeySource_CreateFromHexStrings string string string string
  | PlayReadyKeySource_CreateFromKeyAndKeyId string string
  | PlayReadyKeySource_FetchKeysWithProgramIdentifier string

subsection \<open>The world: what the collaborators answer\<close>

text \<open>
  None of the collaborators is defined in packager\_util.cc; each is a parameter.
  A factory that may return null is a predicate saying when it succeeds.
\<close>

record world =
  aes_signer_valid :: "string \<Rightarrow> string \<Rightarrow> string \<Rightarrow> bool"
    \<comment> \<open>\<open>AesRequestSigner::CreateSigner(name, key, iv)\<close> returns non-null\<close>
  file_contents :: "string \<Rightarrow> string option"
    \<comment> \<open>\<open>File::ReadFileToString(path, &out)\<close>: the contents, \<open>None\<close> when it returns false\<close>
  rsa_signer_valid :: "string \<Rightarrow> string \<Rightarrow> bool"
    \<comment> \<open>\<open>RsaRequestSigner::CreateSigner(name, private_key)\<close> returns non-null\<close>
  hex_string_to_bytes :: "string \<Rightarrow> 8 word list option"
    \<comment> \<open>\<open>base::HexStringToBytes(in, &out)\<close>: the bytes, \<open>None\<close> when it returns false\<close>
  widevine_fetch_status :: "KeySource \<Rightarrow> 8 word list \<Rightarrow> string \<Rightarrow> Status"
    \<comment> \<open>\<open>source->FetchKeys(content_id, policy)\<close>\<close>
  fixed_key_source_valid :: "string \<Rightarrow> string \<Rightarrow> string \<Rightarrow> string \<Rightarrow> bool"
    \<comment> \<open>\<open>FixedKeySource::CreateFromHexStrings(key_id, key, pssh, iv)\<close> returns non-null\<close>
  playready_key_valid :: "string \<Rightarrow> string \<Rightarrow> bool"
    \<comment> \<open>\<open>PlayReadyKeySource::CreateFromKeyAndKeyId(key_id, key)\<close> returns non-null\<close>
  playready_fetch_status :: "KeySource \<Rightarrow> string \<Rightarrow> Status"
    \<comment> \<open>\<open>source->FetchKeysWithProgramIdentifier(program_identifier)\<close>\<close>

subsection \<open>CreateSigner (lines 38-66)\<close>

definition CreateSigner :: "world \<Rightarrow> flags \<Rightarrow> RequestSigner option \<times> event list" where
  "CreateSigner w f =
    (if FLAGS_aes_signing_key f \<noteq> [] then
       (if aes_signer_valid w (FLAGS_signer f) (FLAGS_aes_signing_key f) (FLAGS_aes_signing_iv f)
        then
          (Some (AesRequestSigner (FLAGS_signer f) (FLAGS_aes_signing_key f) (FLAGS_aes_signing_iv f)),
           [AesRequestSigner_CreateSigner
              (FLAGS_signer f) (FLAGS_aes_signing_key f) (FLAGS_aes_signing_iv f)])
        else
          (None,
           [AesRequestSigner_CreateSigner
              (FLAGS_signer f) (FLAGS_aes_signing_key f) (FLAGS_aes_signing_iv f),
            LOG_ERROR (Cannot_create_AES_signer (FLAGS_aes_signing_key f) (FLAGS_aes_signing_iv f))]))
     else if FLAGS_rsa_signing_key_path f \<noteq> [] then
       (case file_contents w (FLAGS_rsa_signing_key_path f) of
          None \<Rightarrow>
            (None,
             [File_ReadFileToString (FLAGS_rsa_signing_key_path f),
              LOG_ERROR (Failed_to_read_from (FLAGS_rsa_signing_key_path f))])
        | Some rsa_private_key \<Rightarrow>
            (if rsa_signer_valid w (FLAGS_signer f) rsa_private_key then
               (Some (RsaRequestSigner (FLAGS_signer f) rsa_private_key),
                [File_ReadFileToString (FLAGS_rsa_signing_key_path f),
                 RsaRequestSigner_CreateSigner (FLAGS_signer f) rsa_private_key])
             else
               (None,
                [File_ReadFileToString (FLAGS_rsa_signing_key_path f),
                 RsaRequestSigner_CreateSigner (FLAGS_signer f) rsa_private_key,
                 LOG_ERROR (Cannot_create_RSA_signer (FLAGS_rsa_signing_key_path f))])))
     else (None, []))"

subsection \<open>CreateEncryptionKeySource (lines 68-125)\<close>

text \<open>
  On the PlayReady server path the value returned by
  \<open>FetchKeysWithProgramIdentifier\<close> (line 117) is discarded by the code, so
  \<open>playready_fetch_status\<close> does not appear below: the call is only recorded as
  an event.
\<close>

definition CreateEncryptionKeySource :: "world \<Rightarrow> flags \<Rightarrow> KeySource option \<times> event list" where
  "CreateEncryptionKeySource w f =
    (if FLAGS_enable_widevine_encryption f then
       (let (request_signer, ev) =
              (if FLAGS_signer f \<noteq> [] then CreateSigner w f else (None, []))
        in if FLAGS_signer f \<noteq> [] \<and> request_signer = None then (None, ev)
           else
             (let widevine_key_source =
                    WidevineKeySource (FLAGS_key_server_url f) (FLAGS_include_common_pssh f)
                      request_signer
              in case hex_string_to_bytes w (FLAGS_content_id f) of
                   None \<Rightarrow> (None, ev @ [LOG_ERROR Invalid_content_id])
                 | Some content_id \<Rightarrow>
                     (let status =
                            widevine_fetch_status w widevine_key_source content_id (FLAGS_policy f);
                          ev' = ev @ [WidevineKeySource_FetchKeys content_id (FLAGS_policy f)]
                      in if \<not> ok status
                         then (None, ev' @ [LOG_ERROR (Widevine_failed_to_fetch_keys status)])
                         else (Some widevine_key_source, ev'))))
     else if FLAGS_enable_fixed_key_encryption f then
       ((if fixed_key_source_valid w (FLAGS_key_id f) (FLAGS_key f) (FLAGS_pssh f) (FLAGS_iv f)
         then Some (FixedKeySource (FLAGS_key_id f) (FLAGS_key f) (FLAGS_pssh f) (FLAGS_iv f))
         else None),
        [FixedKeySource_CreateFromHexStrings
           (FLAGS_key_id f) (FLAGS_key f) (FLAGS_pssh f) (FLAGS_iv f)])
     else if FLAGS_enable_playready_encryption f then
       (if FLAGS_playready_key_id f \<noteq> [] \<and> FLAGS_playready_key f \<noteq> [] then
          ((if playready_key_valid w (FLAGS_playready_key_id f) (FLAGS_playready_key f)
            then Some (PlayReadyKeySource_KeyAndKeyId
                         (FLAGS_playready_key_id f) (FLAGS_playready_key f))
            else None),
           [PlayReadyKeySource_CreateFromKeyAndKeyId
              (FLAGS_playready_key_id f) (FLAGS_playready_key f)])
        else if FLAGS_playready_server_url f \<noteq> [] \<and> FLAGS_program_identifier f \<noteq> [] then
          (let playready_key_source =
                 PlayReadyKeySource (FLAGS_playready_server_url f)
                   (if FLAGS_client_cert_file f \<noteq> [] \<and>
                       FLAGS_client_cert_private_key_file f \<noteq> [] \<and>
                       FLAGS_client_cert_private_key_password f \<noteq> []
                    then Some (FLAGS_client_cert_file f,
                               FLAGS_client_cert_private_key_file f,
                               FLAGS_client_cert_private_key_password f)
                    else None)
                   (if FLAGS_ca_file f \<noteq> [] then Some (FLAGS_ca_file f) else None)
           in (Some playready_key_source,
               [PlayReadyKeySource_FetchKeysWithProgramIdentifier (FLAGS_program_identifier f)]))
        else (None, [LOG_ERROR Error_creating_PlayReady_key_source]))
     else (None, []))"

subsection \<open>CreateDecryptionKeySource (lines 127-147)\<close>

definition CreateDecryptionKeySource :: "world \<Rightarrow> flags \<Rightarrow> KeySource option \<times> event list" where
  "CreateDecryptionKeySource w f =
    (if FLAGS_enable_widevine_decryption f then
       (let (request_signer, ev) =
              (if FLAGS_signer f \<noteq> [] then CreateSigner w f else (None, []))
        in if FLAGS_signer f \<noteq> [] \<and> request_signer = None then (None, ev)
           else
             (Some (WidevineKeySource (FLAGS_key_server_url f) (FLAGS_include_common_pssh f)
                      request_signer),
              ev))
     else if FLAGS_enable_fixed_key_decryption f then
       (let kNoPssh = []; kNoIv = []
        in ((if fixed_key_source_valid w (FLAGS_key_id f) (FLAGS_key f) kNoPssh kNoIv
             then Some (FixedKeySource (FLAGS_key_id f) (FLAGS_key f) kNoPssh kNoIv)
             else None),
            [FixedKeySource_CreateFromHexStrings (FLAGS_key_id f) (FLAGS_key f) kNoPssh kNoIv]))
     else (None, []))"

subsection \<open>Reading the events\<close>

text \<open>The network key-fetch calls among the events, in order.\<close>

fun is_fetch :: "event \<Rightarrow> bool" where
  "is_fetch (WidevineKeySource_FetchKeys content_id policy) = True"
| "is_fetch (PlayReadyKeySource_FetchKeysWithProgramIdentifier program_identifier) = True"
| "is_fetch e = False"

definition fetch_calls :: "event list \<Rightarrow> event list" where
  "fetch_calls evs = filter is_fetch evs"

text \<open>The file reads among the events.\<close>

fun is_file_read :: "event \<Rightarrow> bool" where
  "is_file_read (File_ReadFileToString path) = True"
| "is_file_read e = False"

definition file_reads :: "event list \<Rightarrow> event list" where
  "file_reads evs = filter is_file_read evs"

text \<open>The error log: the messages of the \<open>LOG(ERROR)\<close> lines, in order.\<close>

fun log_of :: "event \<Rightarrow> log_message list" where
  "log_of (LOG_ERROR m) = [m]"
| "log_of e = []"

definition error_log :: "event list \<Rightarrow> log_message list" where
  "error_log evs = concat (map log_of evs)"

subsection \<open>Paths of the selectors\<close>

text \<open>
  The runs on which a selector gives up: one disjunct for each place where the source
  returns a null pointer after a check has failed (an explicit early return, or a factory
  whose null result is passed on).
\<close>

definition signer_fails :: "world \<Rightarrow> flags \<Rightarrow> bool" where
  "signer_fails w f =
    ((FLAGS_aes_signing_key f \<noteq> [] \<and>
      \<not> aes_signer_valid w (FLAGS_signer f) (FLAGS_aes_signing_key f) (FLAGS_aes_signing_iv f))
     \<or>
     (FLAGS_aes_signing_key f = [] \<and> FLAGS_rsa_signing_key_path f \<noteq> [] \<and>
      (case file_contents w (FLAGS_rsa_signing_key_path f) of
         None \<Rightarrow> True
       | Some rsa_private_key \<Rightarrow> \<not> rsa_signer_valid w (FLAGS_signer f) rsa_private_key)))"

definition signer_not_configured :: "flags \<Rightarrow> bool" where
  "signer_not_configured f =
    (FLAGS_aes_signing_key f = [] \<and> FLAGS_rsa_signing_key_path f = [])"

text \<open>
  The signer step at the head of both remote-license branches (lines 73-78 and 132-137):
  it is passed when no signer name is configured or when \<open>CreateSigner\<close> returns a
  signer.
\<close>

definition signer_step_passes :: "world \<Rightarrow> flags \<Rightarrow> bool" where
  "signer_step_passes w f =
    (FLAGS_signer f = [] \<or> fst (CreateSigner w f) \<noteq> None)"

text \<open>
  The source object the remote-license branches hold once the signer step is passed: built
  from the server URL and the common-pssh toggle, with the signer attached when a signer
  name is configured.
\<close>

definition remote_license_source :: "world \<Rightarrow> flags \<Rightarrow> KeySource" where
  "remote_license_source w f =
    WidevineKeySource (FLAGS_key_server_url f) (FLAGS_include_common_pssh f)
      (if FLAGS_signer f = [] then None else fst (CreateSigner w f))"

definition encryption_fails :: "world \<Rightarrow> flags \<Rightarrow> bool" where
  "encryption_fails w f =
    (if FLAGS_enable_widevine_encryption f then
       (\<not> signer_step_passes w f \<or>
        (case hex_string_to_bytes w (FLAGS_content_id f) of
           None \<Rightarrow> True
         | Some content_id \<Rightarrow>
             \<not> ok (widevine_fetch_status w (remote_license_source w f)
                     content_id (FLAGS_policy f))))
     else if FLAGS_enable_fixed_key_encryption f then
       \<not> fixed_key_source_valid w (FLAGS_key_id f) (FLAGS_key f) (FLAGS_pssh f) (FLAGS_iv f)
     else if FLAGS_enable_playready_encryption f then
       (if FLAGS_playready_key_id f \<noteq> [] \<and> FLAGS_playready_key f \<noteq> [] then
          \<not> playready_key_valid w (FLAGS_playready_key_id f) (FLAGS_playready_key f)
        else
          (FLAGS_playready_server_url f = [] \<or> FLAGS_program_identifier f = []))
     else False)"

definition encryption_not_requested :: "flags \<Rightarrow> bool" where
  "encryption_not_requested f =
    (\<not> FLAGS_enable_widevine_encryption f \<and> \<not> FLAGS_enable_fixed_key_encryption f \<and>
     \<not> FLAGS_enable_playready_encryption f)"

definition decryption_fails :: "world \<Rightarrow> flags \<Rightarrow> bool" where
  "decryption_fails w f =
    (if FLAGS_enable_widevine_decryption f then \<not> signer_step_passes w f
     else if FLAGS_enable_fixed_key_decryption f then
       \<not> fixed_key_source_valid w (FLAGS_key_id f) (FLAGS_key f) [] []
     else False)"

definition decryption_not_requested :: "flags \<Rightarrow> bool" where
  "decryption_not_requested f =
    (\<not> FLAGS_enable_widevine_decryption f \<and> \<not> FLAGS_enable_fixed_key_decryption f)"

subsection \<open>Priority among the encryption enable-flags\<close>

definition encryption_flags_set :: "flags \<Rightarrow> nat" where
  "encryption_flags_set f =
    length (filter (\<lambda>b. b)
      [FLAGS_enable_widevine_encryption f, FLAGS_enable_fixed_key_encryption f,
       FLAGS_enable_playready_encryption f])"

text \<open>
  The same configuration with only the highest-priority enable-flag left set, in the
  order remote license server, static key, managed certificate.
\<close>

definition only_highest_priority_flag :: "flags \<Rightarrow> flags" where
  "only_highest_priority_flag f =
    (if FLAGS_enable_widevine_encryption f then
       f\<lparr>FLAGS_enable_fixed_key_encryption := False, FLAGS_enable_playready_encryption := False\<rparr>
     else if FLAGS_enable_fixed_key_encryption f then
       f\<lparr>FLAGS_enable_playready_encryption := False\<rparr>
     else f)"

subsection \<open>A sample world and sample configurations\<close>

text \<open>
  Modelled from the spec: \<open>base::HexStringToBytes\<close> is declared in
  packager/base/strings/string\_number\_conversions.h, which is not among the sources.
  The spec says that decoding fails on odd length and on non-hex characters. What the
  empty string decodes to is not said; it is taken to be the empty byte list here, and no
  theorem below decodes the empty string. The selectors take the decoder from the world;
  this one is the decoder of the sample world only.
\<close>

definition hex_digit :: "char \<Rightarrow> 8 word option" where
  "hex_digit c =
    (let n = (of_char c :: nat) in
     if 48 \<le> n \<and> n \<le> 57 then Some (of_nat (n - 48))
     else if 97 \<le> n \<and> n \<le> 102 then Some (of_nat (n - 87))
     else if 65 \<le> n \<and> n \<le> 70 then Some (of_nat (n - 55))
     else None)"

fun HexStringToBytes :: "string \<Rightarrow> 8 word list option" where
  "HexStringToBytes [] = Some []"
| "HexStringToBytes [c] = None"
| "HexStringToBytes (a # b # cs) =
     (case hex_digit a of
        None \<Rightarrow> None
      | Some msb \<Rightarrow>
         (case hex_digit b of
            None \<Rightarrow> None
          | Some lsb \<Rightarrow>
             (case HexStringToBytes cs of
                None \<Rightarrow> None
              | Some bytes \<Rightarrow> Some ((push_bit 4 msb OR lsb) # bytes))))"

text \<open>
  In the sample world signers and static keys are accepted when their hex strings decode
  (an empty PSSH or IV is accepted as it is), the only readable file is \<open>rsa.pem\<close>, the license server refuses the policy
  \<open>denied\<close>, and the PlayReady service refuses every program identifier.
\<close>

definition sample_world :: world where
  "sample_world =
    \<lparr> aes_signer_valid = (\<lambda>name key iv. HexStringToBytes key \<noteq> None \<and> HexStringToBytes iv \<noteq> None),
      file_contents = (\<lambda>path. if path = ''rsa.pem'' then Some ''PRIVATE KEY'' else None),
      rsa_signer_valid = (\<lambda>name private_key. private_key \<noteq> []),
      hex_string_to_bytes = HexStringToBytes,
      widevine_fetch_status =
        (\<lambda>source content_id policy.
           if policy = ''denied'' then Status_Error 7 ''policy denied'' else Status_OK),
      fixed_key_source_valid =
        (\<lambda>key_id key pssh iv.
           HexStringToBytes key_id \<noteq> None \<and> HexStringToBytes key \<noteq> None \<and>
           (pssh = [] \<or> HexStringToBytes pssh \<noteq> None) \<and>
           (iv = [] \<or> HexStringToBytes iv \<noteq> None)),
      playready_key_valid =
        (\<lambda>key_id key. HexStringToBytes key_id \<noteq> None \<and> HexStringToBytes key \<noteq> None),
      playready_fetch_status =
        (\<lambda>source program_identifier. Status_Error 14 ''service unavailable'') \<rparr>"

definition no_flags :: flags where
  "no_flags =
    \<lparr> FLAGS_signer = [], FLAGS_aes_signing_key = [], FLAGS_aes_signing_iv = [],
      FLAGS_rsa_signing_key_path = [],
      FLAGS_enable_widevine_encryption = False, FLAGS_enable_widevine_decryption = False,
      FLAGS_key_server_url = [], FLAGS_include_common_pssh = False,
      FLAGS_content_id = [], FLAGS_policy = [],
      FLAGS_enable_fixed_key_encryption = False, FLAGS_enable_fixed_key_decryption = False,
      FLAGS_key_id = [], FLAGS_key = [], FLAGS_pssh = [], FLAGS_iv = [],
      FLAGS_enable_playready_encryption = False,
      FLAGS_playready_key_id = [], FLAGS_playready_key = [],
      FLAGS_playready_server_url = [], FLAGS_program_identifier = [],
      FLAGS_client_cert_file = [], FLAGS_client_cert_private_key_file = [],
      FLAGS_client_cert_private_key_password = [], FLAGS_ca_file = [] \<rparr>"

definition cfg_aes_signer_bad :: flags where
  "cfg_aes_signer_bad =
    no_flags\<lparr> FLAGS_signer := ''widevine_test'', FLAGS_aes_signing_key := ''not a key'',
              FLAGS_aes_signing_iv := ''AAAAAAAAAAAAAAAAAAAAAAAAAAAAAAAA'',
              FLAGS_rsa_signing_key_path := ''rsa.pem'' \<rparr>"

definition cfg_all_enabled :: flags where
  "cfg_all_enabled =
    no_flags\<lparr> FLAGS_enable_widevine_encryption := True,
              FLAGS_enable_fixed_key_encryption := True,
              FLAGS_enable_playready_encryption := True,
              FLAGS_key_server_url := ''https://license.example/cenc'',
              FLAGS_content_id := ''3031'', FLAGS_policy := ''sd_only'',
              FLAGS_key_id := ''1234'', FLAGS_key := ''abcd'' \<rparr>"

definition cfg_signer_without_key :: flags where
  "cfg_signer_without_key =
    no_flags\<lparr> FLAGS_enable_widevine_encryption := True,
              FLAGS_enable_widevine_decryption := True,
              FLAGS_signer := ''widevine_test'', FLAGS_content_id := ''3031'' \<rparr>"

definition cfg_signer_without_key_bad_content_id :: flags where
  "cfg_signer_without_key_bad_content_id =
    cfg_signer_without_key\<lparr> FLAGS_content_id := ''not-hex!'' \<rparr>"

definition cfg_bad_content_id :: flags where
  "cfg_bad_content_id =
    no_flags\<lparr> FLAGS_enable_widevine_encryption := True,
              FLAGS_key_server_url := ''https://license.example/cenc'',
              FLAGS_content_id := ''not-hex!'' \<rparr>"

definition cfg_fetch_denied :: flags where
  "cfg_fetch_denied =
    no_flags\<lparr> FLAGS_enable_widevine_encryption := True,
              FLAGS_key_server_url := ''https://license.example/cenc'',
              FLAGS_signer := ''widevine_test'',
              FLAGS_aes_signing_key := ''6F6F6F6F6F6F6F6F6F6F6F6F6F6F6F6F6F6F6F6F6F6F6F6F6F6F6F6F6F6F6F6F'',
              FLAGS_aes_signing_iv := ''AAAAAAAAAAAAAAAAAAAAAAAAAAAAAAAA'',
              FLAGS_content_id := ''3031'', FLAGS_policy := ''denied'' \<rparr>"

definition cfg_playready_server :: flags where
  "cfg_playready_server =
    no_flags\<lparr> FLAGS_enable_playready_encryption := True,
              FLAGS_playready_server_url := ''https://playready.example/rightsmanager.asmx'',
              FLAGS_program_identifier := ''program1'' \<rparr>"

definition cfg_playready_incomplete :: flags where
  "cfg_playready_incomplete =
    no_flags\<lparr> FLAGS_enable_playready_encryption := True,
              FLAGS_playready_server_url := ''https://playready.example/rightsmanager.asmx'' \<rparr>"

definition cfg_playready_incomplete_with_fixed_key :: flags where
  "cfg_playready_incomplete_with_fixed_key =
    cfg_playready_incomplete\<lparr> FLAGS_enable_fixed_key_encryption := True,
                              FLAGS_key_id := ''1234'', FLAGS_key := ''abcd'' \<rparr>"

definition cfg_fixed_key_decryption :: flags where
  "cfg_fixed_key_decryption =
    no_flags\<lparr> FLAGS_enable_fixed_key_decryption := True,
              FLAGS_key_id := ''1234'', FLAGS_key := ''abcd'',
              FLAGS_pssh := ''beef'', FLAGS_iv := ''0102'' \<rparr>"

definition cfg_fixed_key_and_widevine_decryption :: flags where
  "cfg_fixed_key_and_widevine_decryption =
    cfg_fixed_key_decryption\<lparr> FLAGS_enable_widevine_decryption := True,
                              FLAGS_key_server_url := ''https://license.example/cenc'' \<rparr>"

definition cfg_fixed_key_decryption_bad :: flags where
  "cfg_fixed_key_decryption_bad =
    no_flags\<lparr> FLAGS_enable_fixed_key_decryption := True,
              FLAGS_key_id := ''12345'', FLAGS_key := ''abcd'' \<rparr>"

section \<open>Properties\<close>

subsection \<open>Shared facts about CreateSigner\<close>

lemma CreateSigner_no_fetch: "fetch_calls (snd (CreateSigner w f)) = []"
  by (simp add: CreateSigner_def fetch_calls_def split: option.split)

lemma CreateSigner_Some_no_error:
  "fst (CreateSigner w f) \<noteq> None \<Longrightarrow> error_log (snd (CreateSigner w f)) = []"
  by (auto simp: CreateSigner_def error_log_def split: option.splits if_splits)

lemma CreateSigner_None_iff:
  "fst (CreateSigner w f) = None \<longleftrightarrow> signer_fails w f \<or> signer_not_configured f"
  by (auto simp: CreateSigner_def signer_fails_def signer_not_configured_def
           split: option.splits)

lemma CreateSigner_not_configured:
  "signer_not_configured f \<Longrightarrow> CreateSigner w f = (None, [])"
  by (simp add: CreateSigner_def signer_not_configured_def)

subsection \<open>Signer selection\<close>

text \<open>
  C5. Whenever the AES signing key is non-empty, the outcome of \<open>CreateSigner\<close> is
  that of the AES factory alone: a signer when the factory accepts the name, key and IV,
  and otherwise the null result with the AES error logged, the RSA factory never being
  called. No file is read in either case, and neither the RSA key path nor what the file
  system or the RSA factory would answer changes the result.
\<close>

theorem CreateSigner_aes_decides:
  assumes "FLAGS_aes_signing_key f \<noteq> []"
  shows "(aes_signer_valid w (FLAGS_signer f) (FLAGS_aes_signing_key f) (FLAGS_aes_signing_iv f) \<longrightarrow>
            CreateSigner w f =
              (Some (AesRequestSigner (FLAGS_signer f) (FLAGS_aes_signing_key f)
                       (FLAGS_aes_signing_iv f)),
               [AesRequestSigner_CreateSigner (FLAGS_signer f) (FLAGS_aes_signing_key f)
                  (FLAGS_aes_signing_iv f)])) \<and>
         (\<not> aes_signer_valid w (FLAGS_signer f) (FLAGS_aes_signing_key f) (FLAGS_aes_signing_iv f) \<longrightarrow>
            CreateSigner w f =
              (None,
               [AesRequestSigner_CreateSigner (FLAGS_signer f) (FLAGS_aes_signing_key f)
                  (FLAGS_aes_signing_iv f),
                LOG_ERROR (Cannot_create_AES_signer (FLAGS_aes_signing_key f)
                             (FLAGS_aes_signing_iv f))])) \<and>
         file_reads (snd (CreateSigner w f)) = [] \<and>
         CreateSigner (w\<lparr>file_contents := fc, rsa_signer_valid := rv\<rparr>)
             (f\<lparr>FLAGS_rsa_signing_key_path := p\<rparr>) =
           CreateSigner w f"
  using assms by (simp add: CreateSigner_def file_reads_def)

theorem CreateSigner_aes_decides_witness:
  "FLAGS_aes_signing_key cfg_aes_signer_bad \<noteq> [] \<and>
   FLAGS_rsa_signing_key_path cfg_aes_signer_bad = ''rsa.pem'' \<and>
   file_contents sample_world ''rsa.pem'' = Some ''PRIVATE KEY'' \<and>
   rsa_signer_valid sample_world ''widevine_test'' ''PRIVATE KEY'' \<and>
   CreateSigner sample_world cfg_aes_signer_bad =
     (None,
      [AesRequestSigner_CreateSigner ''widevine_test'' ''not a key''
         ''AAAAAAAAAAAAAAAAAAAAAAAAAAAAAAAA'',
       LOG_ERROR (Cannot_create_AES_signer ''not a key'' ''AAAAAAAAAAAAAAAAAAAAAAAAAAAAAAAA'')]) \<and>
   file_reads (snd (CreateSigner sample_world cfg_aes_signer_bad)) = []"
proof -
  have key: "FLAGS_aes_signing_key cfg_aes_signer_bad \<noteq> []"
    by (simp add: cfg_aes_signer_bad_def no_flags_def)
  have invalid:
    "\<not> aes_signer_valid sample_world (FLAGS_signer cfg_aes_signer_bad)
         (FLAGS_aes_signing_key cfg_aes_signer_bad) (FLAGS_aes_signing_iv cfg_aes_signer_bad)"
    by (simp add: cfg_aes_signer_bad_def no_flags_def sample_world_def hex_digit_def)
  have rest:
    "FLAGS_rsa_signing_key_path cfg_aes_signer_bad = ''rsa.pem'' \<and>
     file_contents sample_world ''rsa.pem'' = Some ''PRIVATE KEY'' \<and>
     rsa_signer_valid sample_world ''widevine_test'' ''PRIVATE KEY''"
    by (simp add: cfg_aes_signer_bad_def no_flags_def sample_world_def)
  from CreateSigner_aes_decides [OF key, of sample_world] invalid key rest
  show ?thesis
    by (simp add: cfg_aes_signer_bad_def no_flags_def file_reads_def)
qed

text \<open>
  C10. A signer name with neither an AES key nor an RSA key path: \<open>CreateSigner\<close>
  returns no signer (silently, nothing is read or logged), and the remote-license branch
  of \<open>CreateEncryptionKeySource\<close> and of \<open>CreateDecryptionKeySource\<close> each
  stops there and returns no key source, without decoding the content id or fetching.
\<close>

theorem signer_name_without_key_material:
  assumes "FLAGS_signer f \<noteq> []"
    and "FLAGS_aes_signing_key f = []"
    and "FLAGS_rsa_signing_key_path f = []"
  shows "CreateSigner w f = (None, []) \<and>
         (FLAGS_enable_widevine_encryption f \<longrightarrow> CreateEncryptionKeySource w f = (None, [])) \<and>
         (FLAGS_enable_widevine_decryption f \<longrightarrow> CreateDecryptionKeySource w f = (None, []))"
proof -
  have signer: "CreateSigner w f = (None, [])"
    using assms(2,3) by (simp add: CreateSigner_not_configured signer_not_configured_def)
  show ?thesis
    using assms(1) signer
    by (simp add: CreateEncryptionKeySource_def CreateDecryptionKeySource_def)
qed

theorem signer_name_without_key_material_witness:
  "FLAGS_signer cfg_signer_without_key \<noteq> [] \<and>
   FLAGS_aes_signing_key cfg_signer_without_key = [] \<and>
   FLAGS_rsa_signing_key_path cfg_signer_without_key = [] \<and>
   FLAGS_enable_widevine_encryption cfg_signer_without_key \<and>
   FLAGS_enable_widevine_decryption cfg_signer_without_key \<and>
   CreateSigner sample_world cfg_signer_without_key = (None, []) \<and>
   CreateEncryptionKeySource sample_world cfg_signer_without_key = (None, []) \<and>
   CreateDecryptionKeySource sample_world cfg_signer_without_key = (None, [])"
proof -
  have name: "FLAGS_signer cfg_signer_without_key \<noteq> []"
    and aes: "FLAGS_aes_signing_key cfg_signer_without_key = []"
    and rsa: "FLAGS_rsa_signing_key_path cfg_signer_without_key = []"
    and enabled: "FLAGS_enable_widevine_encryption cfg_signer_without_key"
      "FLAGS_enable_widevine_decryption cfg_signer_without_key"
    by (simp_all add: cfg_signer_without_key_def no_flags_def)
  from signer_name_without_key_material [OF name aes rsa, of sample_world]
  show ?thesis
    using name aes rsa enabled by simp
qed

subsection \<open>Nothing requested\<close>

text \<open>
  C8. With none of the three encryption enable-flags set,
  \<open>CreateEncryptionKeySource\<close> returns no key source and does nothing else: no
  collaborator is called and no error is logged. With neither decryption enable-flag set
  the same holds of \<open>CreateDecryptionKeySource\<close>.
\<close>

theorem nothing_requested_returns_none:
  "(\<not> FLAGS_enable_widevine_encryption f \<and> \<not> FLAGS_enable_fixed_key_encryption f \<and>
    \<not> FLAGS_enable_playready_encryption f \<longrightarrow>
      CreateEncryptionKeySource w f = (None, [])) \<and>
   (\<not> FLAGS_enable_widevine_decryption f \<and> \<not> FLAGS_enable_fixed_key_decryption f \<longrightarrow>
      CreateDecryptionKeySource w f = (None, []))"
  by (simp add: CreateEncryptionKeySource_def CreateDecryptionKeySource_def)

theorem nothing_requested_returns_none_witness:
  "\<not> FLAGS_enable_widevine_encryption no_flags \<and>
   \<not> FLAGS_enable_fixed_key_encryption no_flags \<and>
   \<not> FLAGS_enable_playready_encryption no_flags \<and>
   \<not> FLAGS_enable_widevine_decryption no_flags \<and>
   \<not> FLAGS_enable_fixed_key_decryption no_flags \<and>
   CreateEncryptionKeySource sample_world no_flags = (None, []) \<and>
   CreateDecryptionKeySource sample_world no_flags = (None, [])"
proof -
  have off:
    "\<not> FLAGS_enable_widevine_encryption no_flags \<and>
     \<not> FLAGS_enable_fixed_key_encryption no_flags \<and>
     \<not> FLAGS_enable_playready_encryption no_flags"
    "\<not> FLAGS_enable_widevine_decryption no_flags \<and>
     \<not> FLAGS_enable_fixed_key_decryption no_flags"
    by (simp_all add: no_flags_def)
  from nothing_requested_returns_none [of no_flags sample_world] off
  show ?thesis by simp
qed

subsection \<open>Priority among the encryption backends\<close>

lemma CreateSigner_ignores_enable_flags:
  "CreateSigner w (f\<lparr>FLAGS_enable_fixed_key_encryption := a\<rparr>) = CreateSigner w f"
  "CreateSigner w (f\<lparr>FLAGS_enable_playready_encryption := b\<rparr>) = CreateSigner w f"
  by (simp_all add: CreateSigner_def split: option.split)

lemma widevine_branch_ignores_lower_flags:
  assumes "FLAGS_enable_widevine_encryption f"
  shows "CreateEncryptionKeySource w
           (f\<lparr>FLAGS_enable_fixed_key_encryption := a, FLAGS_enable_playready_encryption := b\<rparr>) =
         CreateEncryptionKeySource w f"
  using assms
  by (simp add: CreateEncryptionKeySource_def CreateSigner_ignores_enable_flags Let_def
           split: prod.split option.split)

lemma fixed_key_branch_ignores_playready_flag:
  assumes "\<not> FLAGS_enable_widevine_encryption f" and "FLAGS_enable_fixed_key_encryption f"
  shows "CreateEncryptionKeySource w (f\<lparr>FLAGS_enable_playready_encryption := b\<rparr>) =
         CreateEncryptionKeySource w f"
  using assms by (simp add: CreateEncryptionKeySource_def)

text \<open>
  C1. When two or more of the three encryption enable-flags are set,
  \<open>CreateEncryptionKeySource\<close> returns the same result and produces the same events
  as on the configuration that keeps only the highest-priority one of them (remote license
  server before static key before managed certificate) and clears the others; that
  configuration has exactly one enable-flag set.
\<close>

theorem highest_priority_flag_wins:
  assumes "2 \<le> encryption_flags_set f"
  shows "CreateEncryptionKeySource w f =
           CreateEncryptionKeySource w (only_highest_priority_flag f) \<and>
         encryption_flags_set (only_highest_priority_flag f) = 1"
proof (cases "FLAGS_enable_widevine_encryption f")
  case True
  then show ?thesis
    by (simp add: only_highest_priority_flag_def widevine_branch_ignores_lower_flags
          encryption_flags_set_def)
next
  case False
  with assms have fixed: "FLAGS_enable_fixed_key_encryption f"
    by (simp add: encryption_flags_set_def split: if_splits)
  with False show ?thesis
    by (simp add: only_highest_priority_flag_def fixed_key_branch_ignores_playready_flag
          encryption_flags_set_def)
qed

theorem highest_priority_flag_wins_witness:
  "2 \<le> encryption_flags_set cfg_all_enabled \<and>
   only_highest_priority_flag cfg_all_enabled =
     cfg_all_enabled\<lparr>FLAGS_enable_fixed_key_encryption := False,
                      FLAGS_enable_playready_encryption := False\<rparr> \<and>
   CreateEncryptionKeySource sample_world cfg_all_enabled =
     CreateEncryptionKeySource sample_world (only_highest_priority_flag cfg_all_enabled) \<and>
   CreateEncryptionKeySource sample_world cfg_all_enabled =
     (Some (WidevineKeySource ''https://license.example/cenc'' False None),
      [WidevineKeySource_FetchKeys [0x30, 0x31] ''sd_only''])"
proof -
  have two: "2 \<le> encryption_flags_set cfg_all_enabled"
    by (simp add: encryption_flags_set_def cfg_all_enabled_def no_flags_def)
  have kept:
    "only_highest_priority_flag cfg_all_enabled =
       cfg_all_enabled\<lparr>FLAGS_enable_fixed_key_encryption := False,
                        FLAGS_enable_playready_encryption := False\<rparr>"
    by (simp add: only_highest_priority_flag_def cfg_all_enabled_def no_flags_def)
  have run:
    "CreateEncryptionKeySource sample_world cfg_all_enabled =
       (Some (WidevineKeySource ''https://license.example/cenc'' False None),
        [WidevineKeySource_FetchKeys [0x30, 0x31] ''sd_only''])"
    by (simp add: CreateEncryptionKeySource_def cfg_all_enabled_def no_flags_def
          sample_world_def hex_digit_def)
  from highest_priority_flag_wins [OF two, of sample_world] two kept run
  show ?thesis by simp
qed

subsection \<open>The remote-license branch of CreateEncryptionKeySource\<close>

lemma fetch_calls_append: "fetch_calls (xs @ ys) = fetch_calls xs @ fetch_calls ys"
  by (simp add: fetch_calls_def)

lemma error_log_append: "error_log (xs @ ys) = error_log xs @ error_log ys"
  by (simp add: error_log_def)

text \<open>
  C3, as stated, fails: with the remote-license flag set, a signer name but no key
  material, and the content id \<open>not-hex!\<close>, the selector returns at the signer step
  (line 76) and the invalid content id is never reported; nothing is logged at all.
\<close>

theorem invalid_content_id_unreported_when_signer_missing:
  "FLAGS_enable_widevine_encryption cfg_signer_without_key_bad_content_id \<and>
   FLAGS_content_id cfg_signer_without_key_bad_content_id = ''not-hex!'' \<and>
   hex_string_to_bytes sample_world ''not-hex!'' = None \<and>
   CreateEncryptionKeySource sample_world cfg_signer_without_key_bad_content_id = (None, []) \<and>
   error_log (snd (CreateEncryptionKeySource sample_world cfg_signer_without_key_bad_content_id))
     \<noteq> [Invalid_content_id]"
  by (simp add: CreateEncryptionKeySource_def CreateSigner_def
        cfg_signer_without_key_bad_content_id_def cfg_signer_without_key_def no_flags_def
        sample_world_def hex_digit_def error_log_def)

text \<open>
  C3, amended. When the remote-license flag is set and the content id does not decode,
  \<open>CreateEncryptionKeySource\<close> returns no key source and makes no key-fetch call; and
  when the signer step is passed (no signer name configured, or \<open>CreateSigner\<close>
  returns a signer) the one error logged is the invalid content id.
\<close>

theorem invalid_content_id_aborts_before_fetch:
  assumes "FLAGS_enable_widevine_encryption f"
    and "hex_string_to_bytes w (FLAGS_content_id f) = None"
  shows "fst (CreateEncryptionKeySource w f) = None \<and>
         fetch_calls (snd (CreateEncryptionKeySource w f)) = [] \<and>
         (signer_step_passes w f \<longrightarrow>
            error_log (snd (CreateEncryptionKeySource w f)) = [Invalid_content_id])"
proof (cases "FLAGS_signer f = []")
  case True
  with assms show ?thesis
    by (simp add: CreateEncryptionKeySource_def fetch_calls_def error_log_def)
next
  case False
  obtain request_signer ev where signer: "CreateSigner w f = (request_signer, ev)"
    by (cases "CreateSigner w f")
  have no_fetch: "fetch_calls ev = []"
    using CreateSigner_no_fetch [of w f] signer by simp
  have no_error: "request_signer \<noteq> None \<Longrightarrow> error_log ev = []"
    using CreateSigner_Some_no_error [of w f] signer by simp
  have last_event: "fetch_calls [LOG_ERROR Invalid_content_id] = []"
    "error_log [LOG_ERROR Invalid_content_id] = [Invalid_content_id]"
    by (simp_all add: fetch_calls_def error_log_def)
  show ?thesis
  proof (cases "request_signer = None")
    case True
    with assms False signer no_fetch show ?thesis
      by (simp add: CreateEncryptionKeySource_def signer_step_passes_def)
  next
    case present: False
    with assms False signer no_fetch no_error last_event show ?thesis
      by (auto simp: CreateEncryptionKeySource_def fetch_calls_append error_log_append)
  qed
qed

theorem invalid_content_id_aborts_before_fetch_witness:
  "FLAGS_enable_widevine_encryption cfg_bad_content_id \<and>
   FLAGS_content_id cfg_bad_content_id = ''not-hex!'' \<and>
   hex_string_to_bytes sample_world ''not-hex!'' = None \<and>
   signer_step_passes sample_world cfg_bad_content_id \<and>
   fst (CreateEncryptionKeySource sample_world cfg_bad_content_id) = None \<and>
   fetch_calls (snd (CreateEncryptionKeySource sample_world cfg_bad_content_id)) = [] \<and>
   error_log (snd (CreateEncryptionKeySource sample_world cfg_bad_content_id)) =
     [Invalid_content_id]"
proof -
  have enabled: "FLAGS_enable_widevine_encryption cfg_bad_content_id"
    and content_id: "FLAGS_content_id cfg_bad_content_id = ''not-hex!''"
    and passes: "signer_step_passes sample_world cfg_bad_content_id"
    by (simp_all add: cfg_bad_content_id_def no_flags_def signer_step_passes_def)
  have undecodable: "hex_string_to_bytes sample_world ''not-hex!'' = None"
    by (simp add: sample_world_def hex_digit_def)
  from undecodable content_id
  have "hex_string_to_bytes sample_world (FLAGS_content_id cfg_bad_content_id) = None"
    by simp
  from invalid_content_id_aborts_before_fetch [OF enabled this]
  show ?thesis
    using enabled content_id undecodable passes by simp
qed

text \<open>
  C4, as stated, fails: with the remote-license flag set, a signer name but no key
  material, and the content id \<open>3031\<close>, which decodes to two bytes, the selector
  returns at the signer step (line 76) and the key-fetch call is never made.
\<close>

theorem decodable_content_id_not_fetched_when_signer_missing:
  "FLAGS_enable_widevine_encryption cfg_signer_without_key \<and>
   FLAGS_content_id cfg_signer_without_key = ''3031'' \<and>
   hex_string_to_bytes sample_world ''3031'' = Some [0x30, 0x31] \<and>
   fetch_calls (snd (CreateEncryptionKeySource sample_world cfg_signer_without_key)) = []"
  by (simp add: CreateEncryptionKeySource_def CreateSigner_def
        cfg_signer_without_key_def no_flags_def sample_world_def hex_digit_def fetch_calls_def)

text \<open>
  C4, amended. When the remote-license flag is set, the signer step is passed (no signer
  name configured, or \<open>CreateSigner\<close> returns a signer) and the content id decodes,
  \<open>CreateEncryptionKeySource\<close> makes exactly one key-fetch call, with the decoded
  content id and the configured policy. If the status of that call is not a success, no
  key source is returned and the one error logged carries that status. If it is a
  success, the source is returned, nothing is logged, and the fetch is the last event.
  So a source is returned only when the fetch succeeded.
\<close>

theorem decoded_content_id_fetched_once:
  assumes "FLAGS_enable_widevine_encryption f"
    and "signer_step_passes w f"
    and "hex_string_to_bytes w (FLAGS_content_id f) = Some content_id"
  shows "fetch_calls (snd (CreateEncryptionKeySource w f)) =
           [WidevineKeySource_FetchKeys content_id (FLAGS_policy f)] \<and>
         (\<not> ok (widevine_fetch_status w (remote_license_source w f) content_id (FLAGS_policy f)) \<longrightarrow>
            fst (CreateEncryptionKeySource w f) = None \<and>
            error_log (snd (CreateEncryptionKeySource w f)) =
              [Widevine_failed_to_fetch_keys
                 (widevine_fetch_status w (remote_license_source w f) content_id (FLAGS_policy f))]) \<and>
         (ok (widevine_fetch_status w (remote_license_source w f) content_id (FLAGS_policy f)) \<longrightarrow>
            fst (CreateEncryptionKeySource w f) = Some (remote_license_source w f) \<and>
            error_log (snd (CreateEncryptionKeySource w f)) = [] \<and>
            last (snd (CreateEncryptionKeySource w f)) =
              WidevineKeySource_FetchKeys content_id (FLAGS_policy f)) \<and>
         (fst (CreateEncryptionKeySource w f) \<noteq> None \<longrightarrow>
            ok (widevine_fetch_status w (remote_license_source w f) content_id (FLAGS_policy f)))"
proof (cases "FLAGS_signer f = []")
  case True
  with assms(1,3) show ?thesis
    by (simp add: CreateEncryptionKeySource_def remote_license_source_def
          fetch_calls_def error_log_def Let_def)
next
  case False
  obtain request_signer ev where signer: "CreateSigner w f = (request_signer, ev)"
    by (cases "CreateSigner w f")
  from assms(2) False signer have present: "request_signer \<noteq> None"
    by (simp add: signer_step_passes_def)
  have no_fetch: "fetch_calls ev = []"
    using CreateSigner_no_fetch [of w f] signer by simp
  have no_error: "error_log ev = []"
    using CreateSigner_Some_no_error [of w f] signer present by simp
  from assms(1,3) False signer present no_fetch no_error show ?thesis
    by (auto simp: CreateEncryptionKeySource_def remote_license_source_def
          fetch_calls_def error_log_def Let_def)
qed

theorem decoded_content_id_fetched_once_witness:
  "FLAGS_enable_widevine_encryption cfg_fetch_denied \<and>
   signer_step_passes sample_world cfg_fetch_denied \<and>
   FLAGS_content_id cfg_fetch_denied = ''3031'' \<and>
   hex_string_to_bytes sample_world ''3031'' = Some [0x30, 0x31] \<and>
   FLAGS_policy cfg_fetch_denied = ''denied'' \<and>
   widevine_fetch_status sample_world (remote_license_source sample_world cfg_fetch_denied)
     [0x30, 0x31] ''denied'' = Status_Error 7 ''policy denied'' \<and>
   fetch_calls (snd (CreateEncryptionKeySource sample_world cfg_fetch_denied)) =
     [WidevineKeySource_FetchKeys [0x30, 0x31] ''denied''] \<and>
   fst (CreateEncryptionKeySource sample_world cfg_fetch_denied) = None \<and>
   error_log (snd (CreateEncryptionKeySource sample_world cfg_fetch_denied)) =
     [Widevine_failed_to_fetch_keys (Status_Error 7 ''policy denied'')]"
proof -
  have enabled: "FLAGS_enable_widevine_encryption cfg_fetch_denied"
    and content_id: "FLAGS_content_id cfg_fetch_denied = ''3031''"
    and policy: "FLAGS_policy cfg_fetch_denied = ''denied''"
    by (simp_all add: cfg_fetch_denied_def no_flags_def)
  have passes: "signer_step_passes sample_world cfg_fetch_denied"
    by (simp add: signer_step_passes_def CreateSigner_def cfg_fetch_denied_def no_flags_def
          sample_world_def hex_digit_def)
  have decoded: "hex_string_to_bytes sample_world ''3031'' = Some [0x30, 0x31]"
    by (simp add: sample_world_def hex_digit_def)
  have status:
    "widevine_fetch_status sample_world (remote_license_source sample_world cfg_fetch_denied)
       [0x30, 0x31] ''denied'' = Status_Error 7 ''policy denied''"
    by (simp add: sample_world_def)
  from decoded content_id
  have "hex_string_to_bytes sample_world (FLAGS_content_id cfg_fetch_denied) = Some [0x30, 0x31]"
    by simp
  from decoded_content_id_fetched_once [OF enabled passes this]
  show ?thesis
    using enabled passes content_id decoded policy status by simp
qed

subsection \<open>The managed-certificate branch of CreateEncryptionKeySource\<close>

lemma playready_server_path_returns_source:
  assumes "\<not> FLAGS_enable_widevine_encryption f"
    and "\<not> FLAGS_enable_fixed_key_encryption f"
    and "FLAGS_enable_playready_encryption f"
    and "\<not> (FLAGS_playready_key_id f \<noteq> [] \<and> FLAGS_playready_key f \<noteq> [])"
    and "FLAGS_playready_server_url f \<noteq> []"
    and "FLAGS_program_identifier f \<noteq> []"
  shows "fst (CreateEncryptionKeySource w f) \<noteq> None \<and>
         snd (CreateEncryptionKeySource w f) =
           [PlayReadyKeySource_FetchKeysWithProgramIdentifier (FLAGS_program_identifier f)] \<and>
         CreateEncryptionKeySource (w\<lparr>playready_fetch_status := answer\<rparr>) f =
           CreateEncryptionKeySource w f"
  using assms by (simp add: CreateEncryptionKeySource_def Let_def)

text \<open>
  C2 does not hold of the code. On the PlayReady server path (no static key pair, service
  URL and program identifier both configured) the status returned by
  \<open>FetchKeysWithProgramIdentifier\<close> is dropped at line 117, whereas the remote-license
  branch tests the status of \<open>FetchKeys\<close> at line 86. In the sample world the PlayReady
  service refuses the request, and the selector still returns the source and logs nothing.
\<close>

theorem playready_fetch_failure_unchecked:
  "FLAGS_enable_playready_encryption cfg_playready_server \<and>
   \<not> FLAGS_enable_widevine_encryption cfg_playready_server \<and>
   \<not> FLAGS_enable_fixed_key_encryption cfg_playready_server \<and>
   FLAGS_playready_key_id cfg_playready_server = [] \<and>
   FLAGS_playready_key cfg_playready_server = [] \<and>
   FLAGS_playready_server_url cfg_playready_server =
     ''https://playready.example/rightsmanager.asmx'' \<and>
   FLAGS_program_identifier cfg_playready_server = ''program1'' \<and>
   playready_fetch_status sample_world
     (PlayReadyKeySource ''https://playready.example/rightsmanager.asmx'' None None)
     ''program1'' = Status_Error 14 ''service unavailable'' \<and>
   CreateEncryptionKeySource sample_world cfg_playready_server =
     (Some (PlayReadyKeySource ''https://playready.example/rightsmanager.asmx'' None None),
      [PlayReadyKeySource_FetchKeysWithProgramIdentifier ''program1''])"
  by (simp add: CreateEncryptionKeySource_def cfg_playready_server_def no_flags_def
        sample_world_def)

text \<open>
  C6, as stated, fails: with the managed-certificate flag set and only a service URL
  configured, but the static-key flag set as well, the static-key branch is taken and a
  fixed key source is returned.
\<close>

theorem incomplete_playready_config_shadowed_by_fixed_key:
  "FLAGS_enable_playready_encryption cfg_playready_incomplete_with_fixed_key \<and>
   \<not> (FLAGS_playready_key_id cfg_playready_incomplete_with_fixed_key \<noteq> [] \<and>
      FLAGS_playready_key cfg_playready_incomplete_with_fixed_key \<noteq> []) \<and>
   \<not> (FLAGS_playready_server_url cfg_playready_incomplete_with_fixed_key \<noteq> [] \<and>
      FLAGS_program_identifier cfg_playready_incomplete_with_fixed_key \<noteq> []) \<and>
   CreateEncryptionKeySource sample_world cfg_playready_incomplete_with_fixed_key =
     (Some (FixedKeySource ''1234'' ''abcd'' [] []),
      [FixedKeySource_CreateFromHexStrings ''1234'' ''abcd'' [] []])"
  by (simp add: CreateEncryptionKeySource_def cfg_playready_incomplete_with_fixed_key_def
        cfg_playready_incomplete_def no_flags_def sample_world_def hex_digit_def)

text \<open>
  C6, amended. When the managed-certificate flag is set and neither the remote-license
  flag nor the static-key flag is, and neither (a) both a static key id and key value nor
  (b) both a service URL and a program identifier are configured,
  \<open>CreateEncryptionKeySource\<close> returns no key source and logs the PlayReady
  configuration error; no collaborator is called.
\<close>

theorem incomplete_playready_config_fails:
  assumes "\<not> FLAGS_enable_widevine_encryption f"
    and "\<not> FLAGS_enable_fixed_key_encryption f"
    and "FLAGS_enable_playready_encryption f"
    and "\<not> (FLAGS_playready_key_id f \<noteq> [] \<and> FLAGS_playready_key f \<noteq> [])"
    and "\<not> (FLAGS_playready_server_url f \<noteq> [] \<and> FLAGS_program_identifier f \<noteq> [])"
  shows "CreateEncryptionKeySource w f =
           (None, [LOG_ERROR Error_creating_PlayReady_key_source])"
  using assms by (simp add: CreateEncryptionKeySource_def)

theorem incomplete_playready_config_fails_witness:
  "\<not> FLAGS_enable_widevine_encryption cfg_playready_incomplete \<and>
   \<not> FLAGS_enable_fixed_key_encryption cfg_playready_incomplete \<and>
   FLAGS_enable_playready_encryption cfg_playready_incomplete \<and>
   \<not> (FLAGS_playready_key_id cfg_playready_incomplete \<noteq> [] \<and>
      FLAGS_playready_key cfg_playready_incomplete \<noteq> []) \<and>
   \<not> (FLAGS_playready_server_url cfg_playready_incomplete \<noteq> [] \<and>
      FLAGS_program_identifier cfg_playready_incomplete \<noteq> []) \<and>
   CreateEncryptionKeySource sample_world cfg_playready_incomplete =
     (None, [LOG_ERROR Error_creating_PlayReady_key_source])"
proof -
  have h1: "\<not> FLAGS_enable_widevine_encryption cfg_playready_incomplete"
    and h2: "\<not> FLAGS_enable_fixed_key_encryption cfg_playready_incomplete"
    and h3: "FLAGS_enable_playready_encryption cfg_playready_incomplete"
    and h4: "\<not> (FLAGS_playready_key_id cfg_playready_incomplete \<noteq> [] \<and>
                FLAGS_playready_key cfg_playready_incomplete \<noteq> [])"
    and h5: "\<not> (FLAGS_playready_server_url cfg_playready_incomplete \<noteq> [] \<and>
                FLAGS_program_identifier cfg_playready_incomplete \<noteq> [])"
    by (simp_all add: cfg_playready_incomplete_def no_flags_def)
  from incomplete_playready_config_fails [OF h1 h2 h3 h4 h5, of sample_world]
  show ?thesis
    using h1 h2 h3 h4 h5 by simp
qed

subsection \<open>The static-key branch of CreateDecryptionKeySource\<close>

text \<open>
  C7, as stated, fails: with the static-key decryption flag and the remote-license
  decryption flag both set, the remote-license branch is taken, and no fixed key source is
  constructed.
\<close>

theorem fixed_key_decryption_shadowed_by_widevine:
  "FLAGS_enable_fixed_key_decryption cfg_fixed_key_and_widevine_decryption \<and>
   CreateDecryptionKeySource sample_world cfg_fixed_key_and_widevine_decryption =
     (Some (WidevineKeySource ''https://license.example/cenc'' False None), [])"
  by (simp add: CreateDecryptionKeySource_def cfg_fixed_key_and_widevine_decryption_def
        cfg_fixed_key_decryption_def no_flags_def)

text \<open>
  C7, amended. When the static-key decryption flag is set and the remote-license
  decryption flag is not, \<open>CreateDecryptionKeySource\<close> makes the one call
  \<open>FixedKeySource::CreateFromHexStrings(key_id, key, "", "")\<close> and returns its result:
  the source is built from the configured key id and key value with PSSH and IV empty,
  and the result is the same whatever the PSSH and IV flags hold.
\<close>

theorem fixed_key_decryption_empty_pssh_iv:
  assumes "\<not> FLAGS_enable_widevine_decryption f"
    and "FLAGS_enable_fixed_key_decryption f"
  shows "CreateDecryptionKeySource w f =
           ((if fixed_key_source_valid w (FLAGS_key_id f) (FLAGS_key f) [] []
             then Some (FixedKeySource (FLAGS_key_id f) (FLAGS_key f) [] [])
             else None),
            [FixedKeySource_CreateFromHexStrings (FLAGS_key_id f) (FLAGS_key f) [] []]) \<and>
         CreateDecryptionKeySource w (f\<lparr>FLAGS_pssh := pssh, FLAGS_iv := iv\<rparr>) =
           CreateDecryptionKeySource w f"
  using assms by (simp add: CreateDecryptionKeySource_def)

theorem fixed_key_decryption_empty_pssh_iv_witness:
  "\<not> FLAGS_enable_widevine_decryption cfg_fixed_key_decryption \<and>
   FLAGS_enable_fixed_key_decryption cfg_fixed_key_decryption \<and>
   FLAGS_pssh cfg_fixed_key_decryption = ''beef'' \<and>
   FLAGS_iv cfg_fixed_key_decryption = ''0102'' \<and>
   CreateDecryptionKeySource sample_world cfg_fixed_key_decryption =
     (Some (FixedKeySource ''1234'' ''abcd'' [] []),
      [FixedKeySource_CreateFromHexStrings ''1234'' ''abcd'' [] []]) \<and>
   CreateDecryptionKeySource sample_world
       (cfg_fixed_key_decryption\<lparr>FLAGS_pssh := ''00'', FLAGS_iv := ''ff''\<rparr>) =
     CreateDecryptionKeySource sample_world cfg_fixed_key_decryption"
proof -
  have off: "\<not> FLAGS_enable_widevine_decryption cfg_fixed_key_decryption"
    and on: "FLAGS_enable_fixed_key_decryption cfg_fixed_key_decryption"
    and others: "FLAGS_pssh cfg_fixed_key_decryption = ''beef''"
      "FLAGS_iv cfg_fixed_key_decryption = ''0102''"
      "FLAGS_key_id cfg_fixed_key_decryption = ''1234''"
      "FLAGS_key cfg_fixed_key_decryption = ''abcd''"
    by (simp_all add: cfg_fixed_key_decryption_def no_flags_def)
  have valid: "fixed_key_source_valid sample_world ''1234'' ''abcd'' [] []"
    by (simp add: sample_world_def hex_digit_def)
  from fixed_key_decryption_empty_pssh_iv
         [OF off on, where w = sample_world and pssh = "''00''" and iv = "''ff''"]
  show ?thesis
    using off on others valid by simp
qed

subsection \<open>What the returned value tells the caller\<close>

text \<open>
  The null results of the two key-source selectors are exactly the failing runs and the
  runs on which nothing was requested (for \<open>CreateSigner\<close> this is
  \<open>CreateSigner_None_iff\<close>).
\<close>

lemma CreateEncryptionKeySource_None_iff:
  "fst (CreateEncryptionKeySource w f) = None \<longleftrightarrow>
     encryption_fails w f \<or> encryption_not_requested f"
proof (cases "FLAGS_enable_widevine_encryption f")
  case True
  obtain request_signer ev where signer: "CreateSigner w f = (request_signer, ev)"
    by (cases "CreateSigner w f")
  with True show ?thesis
    by (auto simp: CreateEncryptionKeySource_def encryption_fails_def
          encryption_not_requested_def signer_step_passes_def remote_license_source_def
          Let_def split: option.splits)
next
  case False
  then show ?thesis
    by (auto simp: CreateEncryptionKeySource_def encryption_fails_def
          encryption_not_requested_def)
qed

lemma CreateDecryptionKeySource_None_iff:
  "fst (CreateDecryptionKeySource w f) = None \<longleftrightarrow>
     decryption_fails w f \<or> decryption_not_requested f"
proof (cases "FLAGS_enable_widevine_decryption f")
  case True
  obtain request_signer ev where signer: "CreateSigner w f = (request_signer, ev)"
    by (cases "CreateSigner w f")
  with True show ?thesis
    by (auto simp: CreateDecryptionKeySource_def decryption_fails_def
          decryption_not_requested_def signer_step_passes_def)
next
  case False
  then show ?thesis
    by (auto simp: CreateDecryptionKeySource_def decryption_fails_def
          decryption_not_requested_def)
qed

text \<open>
  C9. For each of \<open>CreateSigner\<close>, \<open>CreateEncryptionKeySource\<close> and
  \<open>CreateDecryptionKeySource\<close>: a run that fails and a run on which nothing is
  configured return the same value, the null pointer, whatever the two configurations
  and worlds are. The second run has no events at all, so the two can differ only in
  their events, where the error messages of the first are logged.
\<close>

theorem failure_returns_same_value_as_nothing_configured:
  "(signer_fails w1 f1 \<and> signer_not_configured g1 \<longrightarrow>
      fst (CreateSigner w1 f1) = fst (CreateSigner v1 g1) \<and>
      fst (CreateSigner w1 f1) = None \<and> CreateSigner v1 g1 = (None, [])) \<and>
   (encryption_fails w2 f2 \<and> encryption_not_requested g2 \<longrightarrow>
      fst (CreateEncryptionKeySource w2 f2) = fst (CreateEncryptionKeySource v2 g2) \<and>
      fst (CreateEncryptionKeySource w2 f2) = None \<and>
      CreateEncryptionKeySource v2 g2 = (None, [])) \<and>
   (decryption_fails w3 f3 \<and> decryption_not_requested g3 \<longrightarrow>
      fst (CreateDecryptionKeySource w3 f3) = fst (CreateDecryptionKeySource v3 g3) \<and>
      fst (CreateDecryptionKeySource w3 f3) = None \<and>
      CreateDecryptionKeySource v3 g3 = (None, []))"
proof -
  have signer: "signer_fails w1 f1 \<Longrightarrow> fst (CreateSigner w1 f1) = None"
    by (simp add: CreateSigner_None_iff)
  have encryption: "encryption_fails w2 f2 \<Longrightarrow> fst (CreateEncryptionKeySource w2 f2) = None"
    by (simp add: CreateEncryptionKeySource_None_iff)
  have decryption: "decryption_fails w3 f3 \<Longrightarrow> fst (CreateDecryptionKeySource w3 f3) = None"
    by (simp add: CreateDecryptionKeySource_None_iff)
  have unconfigured:
    "signer_not_configured g1 \<Longrightarrow> CreateSigner v1 g1 = (None, [])"
    "encryption_not_requested g2 \<Longrightarrow> CreateEncryptionKeySource v2 g2 = (None, [])"
    "decryption_not_requested g3 \<Longrightarrow> CreateDecryptionKeySource v3 g3 = (None, [])"
    by (simp_all add: CreateSigner_not_configured CreateEncryptionKeySource_def
          CreateDecryptionKeySource_def encryption_not_requested_def
          decryption_not_requested_def)
  from signer encryption decryption unconfigured show ?thesis
    by simp
qed

theorem failure_returns_same_value_as_nothing_configured_witness:
  "signer_fails sample_world cfg_aes_signer_bad \<and> signer_not_configured no_flags \<and>
   encryption_fails sample_world cfg_bad_content_id \<and> encryption_not_requested no_flags \<and>
   decryption_fails sample_world cfg_fixed_key_decryption_bad \<and>
   decryption_not_requested no_flags \<and>
   fst (CreateSigner sample_world cfg_aes_signer_bad) = fst (CreateSigner sample_world no_flags) \<and>
   fst (CreateEncryptionKeySource sample_world cfg_bad_content_id) =
     fst (CreateEncryptionKeySource sample_world no_flags) \<and>
   fst (CreateDecryptionKeySource sample_world cfg_fixed_key_decryption_bad) =
     fst (CreateDecryptionKeySource sample_world no_flags) \<and>
   snd (CreateEncryptionKeySource sample_world cfg_bad_content_id) =
     [LOG_ERROR Invalid_content_id] \<and>
   snd (CreateEncryptionKeySource sample_world no_flags) = []"
proof -
  have failing:
    "signer_fails sample_world cfg_aes_signer_bad"
    "encryption_fails sample_world cfg_bad_content_id"
    "decryption_fails sample_world cfg_fixed_key_decryption_bad"
    by (simp_all add: signer_fails_def encryption_fails_def decryption_fails_def
          signer_step_passes_def cfg_aes_signer_bad_def cfg_bad_content_id_def
          cfg_fixed_key_decryption_bad_def no_flags_def sample_world_def hex_digit_def)
  have unconfigured:
    "signer_not_configured no_flags" "encryption_not_requested no_flags"
    "decryption_not_requested no_flags"
    by (simp_all add: signer_not_configured_def encryption_not_requested_def
          decryption_not_requested_def no_flags_def)
  have events:
    "snd (CreateEncryptionKeySource sample_world cfg_bad_content_id) =
       [LOG_ERROR Invalid_content_id]"
    by (simp add: CreateEncryptionKeySource_def cfg_bad_content_id_def no_flags_def
          sample_world_def hex_digit_def)
  note main =
    failure_returns_same_value_as_nothing_configured
      [where ?w1.0 = sample_world and ?f1.0 = cfg_aes_signer_bad
         and ?v1.0 = sample_world and ?g1.0 = no_flags
         and ?w2.0 = sample_world and ?f2.0 = cfg_bad_content_id
         and ?v2.0 = sample_world and ?g2.0 = no_flags
         and ?w3.0 = sample_world and ?f3.0 = cfg_fixed_key_decryption_bad
         and ?v3.0 = sample_world and ?g3.0 = no_flags]
  from main failing(1) unconfigured(1)
  have signer:
    "fst (CreateSigner sample_world cfg_aes_signer_bad) = fst (CreateSigner sample_world no_flags)"
    by blast
  from main failing(2) unconfigured(2)
  have encryption:
    "fst (CreateEncryptionKeySource sample_world cfg_bad_content_id) =
       fst (CreateEncryptionKeySource sample_world no_flags)"
    "CreateEncryptionKeySource sample_world no_flags = (None, [])"
    by blast+
  from main failing(3) unconfigured(3)
  have decryption:
    "fst (CreateDecryptionKeySource sample_world cfg_fixed_key_decryption_bad) =
       fst (CreateDecryptionKeySource sample_world no_flags)"
    by blast
  from encryption(2) have silent: "snd (CreateEncryptionKeySource sample_world no_flags) = []"
    by simp
  from failing unconfigured signer encryption(1) decryption events silent
  show ?thesis
    by blast
qed

end
